theory Spec2Isabelle
  imports
    Complex_Main
    "HOL-Library.Char_ord"
    "HOL-Library.List_Lexorder"
    "HOL-Library.Product_Lexorder"
begin

section \<open>Unemployment analysis dashboard: the data pipeline\<close>

text \<open>
  The program is one Python script, \<^verbatim>\<open>Unemployment_Analysis_with_Python.py\<close>:
  \<^verbatim>\<open>load_data\<close> reads and cleans a CSV file, and \<^verbatim>\<open>main\<close> filters the table,
  groups it, and computes means, correlations and the before/after comparison around the
  Covid-19 lockdown. The table operations are calls into pandas and numpy; each is
  embedded here as a function on lists of rows that computes what the call computes.

  Numbers. A cell of the table is a finite number, embedded as a \<open>real\<close>; rounding and
  overflow of the 64-bit binary format are not part of this development, nor is the sign of
  zero. What the script computes from the cells can also be one of the three special values
  of the format, and these are part of the development: a mean over no rows is not-a-number,
  and a division by zero is an infinity or not-a-number, never an exception.

  What rounding decides is left out. The correlations of the regional analysis are not
  embedded: whether a column has zero variance, and the last bits of the coefficient, depend
  on the rounding of each step inside pandas and numpy. Nothing below states that two
  different computations of a mean agree to the last bit.
\<close>

subsection \<open>Numbers with the special values\<close>

datatype fl = Fin real | PInf | NInf | NaN

fun fl_neg :: "fl \<Rightarrow> fl" where
  "fl_neg (Fin a) = Fin (- a)"
| "fl_neg PInf = NInf"
| "fl_neg NInf = PInf"
| "fl_neg NaN = NaN"

fun fl_add :: "fl \<Rightarrow> fl \<Rightarrow> fl" where
  "fl_add (Fin a) (Fin b) = Fin (a + b)"
| "fl_add NaN y = NaN"
| "fl_add x NaN = NaN"
| "fl_add PInf NInf = NaN"
| "fl_add NInf PInf = NaN"
| "fl_add PInf y = PInf"
| "fl_add NInf y = NInf"
| "fl_add x PInf = PInf"
| "fl_add x NInf = NInf"

definition fl_sub :: "fl \<Rightarrow> fl \<Rightarrow> fl" where
  "fl_sub x y = fl_add x (fl_neg y)"

text \<open>The sign of a number that is not NaN: \<open>-1\<close>, \<open>0\<close> or \<open>1\<close>.\<close>

fun fl_sgn :: "fl \<Rightarrow> int" where
  "fl_sgn (Fin a) = (if a < 0 then - 1 else if a = 0 then 0 else 1)"
| "fl_sgn PInf = 1"
| "fl_sgn NInf = - 1"
| "fl_sgn NaN = 0"

definition fl_inf :: "int \<Rightarrow> fl" where
  "fl_inf s = (if s < 0 then NInf else PInf)"

fun fl_mul :: "fl \<Rightarrow> fl \<Rightarrow> fl" where
  "fl_mul (Fin a) (Fin b) = Fin (a * b)"
| "fl_mul NaN y = NaN"
| "fl_mul x NaN = NaN"
| "fl_mul x y = (if fl_sgn x = 0 \<or> fl_sgn y = 0 then NaN else fl_inf (fl_sgn x * fl_sgn y))"

text \<open>
  Division. A finite number divided by zero is an infinity with the sign of the dividend,
  and zero divided by zero is NaN; no exception is raised (numpy emits a warning only).
\<close>

fun fl_div :: "fl \<Rightarrow> fl \<Rightarrow> fl" where
  "fl_div (Fin a) (Fin b) =
     (if b \<noteq> 0 then Fin (a / b) else if a = 0 then NaN else fl_inf (fl_sgn (Fin a)))"
| "fl_div NaN y = NaN"
| "fl_div x NaN = NaN"
| "fl_div (Fin a) y = Fin 0"
| "fl_div x (Fin b) = fl_inf (fl_sgn x * (if b < 0 then - 1 else 1))"
| "fl_div x y = NaN"

text \<open>Comparison \<open>x > y\<close>: false whenever one side is NaN.\<close>

fun fl_gt :: "fl \<Rightarrow> fl \<Rightarrow> bool" where
  "fl_gt (Fin a) (Fin b) = (a > b)"
| "fl_gt NaN y = False"
| "fl_gt x NaN = False"
| "fl_gt PInf y = (y \<noteq> PInf)"
| "fl_gt x NInf = (x \<noteq> NInf)"
| "fl_gt x y = False"


subsection \<open>The table\<close>

text \<open>
  A calendar date is (year, month, day); the order on triples is the lexicographic one,
  which on calendar dates is the chronological order that pandas timestamps compare by.
\<close>

type_synonym date = "nat \<times> nat \<times> nat"

definition year :: "date \<Rightarrow> nat" where
  "year d = fst d"

definition month :: "date \<Rightarrow> nat" where
  "month d = fst (snd d)"

text \<open>
  One row of the data frame after \<^verbatim>\<open>load_data\<close>. \<open>Rate\<close> is the column
  \<^verbatim>\<open>Estimated Unemployment Rate (%)\<close>, \<open>Employed\<close> is \<^verbatim>\<open>Estimated Employed\<close> and
  \<open>Labour\<close> is \<^verbatim>\<open>Estimated Labour Participation Rate (%)\<close>.
\<close>

record observation =
  Date :: date
  Region :: string
  Area :: string
  Rate :: real
  Employed :: real
  Labour :: real
  Year :: nat
  Month :: nat

type_synonym dataframe = "observation list"

text \<open>\<^verbatim>\<open>Series.unique()\<close>: the distinct values in order of first appearance.\<close>

definition unique :: "'a list \<Rightarrow> 'a list" where
  "unique xs = rev (remdups (rev xs))"

text \<open>
  \<^verbatim>\<open>Series.mean()\<close>: the sum divided by the count, NaN for an empty series.
\<close>

definition mean :: "real list \<Rightarrow> fl" where
  "mean xs = (if xs = [] then NaN else Fin (sum_list xs / real (length xs)))"

text \<open>\<^verbatim>\<open>Series.min()\<close> and \<^verbatim>\<open>Series.max()\<close> of the date column; \<open>None\<close> is NaT.\<close>

fun date_min :: "date list \<Rightarrow> date option" where
  "date_min [] = None"
| "date_min (d # ds) = Some (fold min ds d)"

fun date_max :: "date list \<Rightarrow> date option" where
  "date_max [] = None"
| "date_max (d # ds) = Some (fold max ds d)"

subsection \<open>Filter stage (regional analysis)\<close>

text \<open>
  \<^verbatim>\<open>all_regions = sorted([str(region) for region in df['Region'].unique()])\<close>
\<close>

definition all_regions :: "dataframe \<Rightarrow> string list" where
  "all_regions df = sort (unique (map Region df))"

text \<open>\<^verbatim>\<open>df[df['Region'].isin(selected_regions)]\<close>\<close>

definition isin_regions :: "dataframe \<Rightarrow> string list \<Rightarrow> dataframe" where
  "isin_regions df selected_regions = filter (\<lambda>r. Region r \<in> set selected_regions) df"

text \<open>
  \<^verbatim>\<open>filtered_df[(filtered_df['Date'] >= time_period[0]) & (filtered_df['Date'] <= time_period[1])]\<close>
\<close>

definition between_dates :: "dataframe \<Rightarrow> date \<times> date \<Rightarrow> dataframe" where
  "between_dates df time_period =
     filter (\<lambda>r. Date r \<ge> fst time_period \<and> Date r \<le> snd time_period) df"

text \<open>
  \<^verbatim>\<open>if selected_area != 'Both': filtered_df = filtered_df[filtered_df['Area'] == selected_area]\<close>
\<close>

definition area_filter :: "dataframe \<Rightarrow> string \<Rightarrow> dataframe" where
  "area_filter df selected_area =
     (if selected_area \<noteq> ''Both'' then filter (\<lambda>r. Area r = selected_area) df else df)"

text \<open>
  The three filters in the order of the script. \<open>None\<close> is the branch
  \<^verbatim>\<open>if not selected_regions\<close>, where the script shows a warning and computes nothing.
\<close>

definition filtered_df :: "dataframe \<Rightarrow> string list \<Rightarrow> date \<times> date \<Rightarrow> string \<Rightarrow> dataframe option" where
  "filtered_df df selected_regions time_period selected_area =
     (if selected_regions = [] then None
      else Some (area_filter (between_dates (isin_regions df selected_regions) time_period)
                   selected_area))"

subsection \<open>Aggregation stage\<close>

text \<open>
  \<^verbatim>\<open>df.groupby(keys)['Estimated Unemployment Rate (%)'].mean().reset_index()\<close>:
  one row for each key value that occurs, in ascending order of the key (pandas sorts the
  group keys), with the mean of the rate over the rows of that key.
\<close>

definition groupby_mean :: "(observation \<Rightarrow> 'k::linorder) \<Rightarrow> dataframe \<Rightarrow> ('k \<times> fl) list" where
  "groupby_mean key df =
     map (\<lambda>k. (k, mean (map Rate (filter (\<lambda>r. key r = k) df)))) (sort (remdups (map key df)))"

text \<open>The four groupings of the script.\<close>

definition monthly_data :: "dataframe \<Rightarrow> (date \<times> fl) list" where
  "monthly_data df = groupby_mean Date df"

definition area_data :: "dataframe \<Rightarrow> ((date \<times> string) \<times> fl) list" where
  "area_data df = groupby_mean (\<lambda>r. (Date r, Area r)) df"

definition region_data_grouped :: "dataframe \<Rightarrow> (string \<times> fl) list" where
  "region_data_grouped fdf = groupby_mean Region fdf"

definition region_time_data :: "dataframe \<Rightarrow> ((string \<times> date) \<times> fl) list" where
  "region_time_data fdf = groupby_mean (\<lambda>r. (Region r, Date r)) fdf"

subsection \<open>Covid-19 impact\<close>

definition pre_covid_start :: date where "pre_covid_start = (2019, 5, 1)"
definition pre_covid_end :: date where "pre_covid_end = (2020, 2, 29)"
definition post_covid_start :: date where "post_covid_start = (2020, 3, 1)"
definition post_covid_end :: date where "post_covid_end = (2020, 6, 30)"

definition pre_covid_df :: "dataframe \<Rightarrow> dataframe" where
  "pre_covid_df df = filter (\<lambda>r. Date r \<ge> pre_covid_start \<and> Date r \<le> pre_covid_end) df"

definition post_covid_df :: "dataframe \<Rightarrow> dataframe" where
  "post_covid_df df = filter (\<lambda>r. Date r \<ge> post_covid_start \<and> Date r \<le> post_covid_end) df"




text \<open>The mean of the rate over the rows of one region in a window.\<close>

definition region_mean :: "dataframe \<Rightarrow> string \<Rightarrow> fl" where
  "region_mean wdf region = mean (map Rate (filter (\<lambda>r. Region r = region) wdf))"




datatype error = KeyError | AttributeError | ValueError


record impact =
  imp_Region :: string
  Pre_Covid_Rate :: fl
  Post_Covid_Rate :: fl
  Absolute_Change :: fl
  Percentage_Change :: fl

text \<open>
  The second loop, which fills \<^verbatim>\<open>region_impact_full\<close>:
  \<^verbatim>\<open>percent = (change / pre) * 100 if pre > 0 else 0\<close>.
\<close>

definition region_impact_full :: "dataframe \<Rightarrow> impact list" where
  "region_impact_full df =
     map (\<lambda>region.
            let pre = region_mean (pre_covid_df df) region;
                post = region_mean (post_covid_df df) region;
                change = fl_sub post pre;
                percent = (if fl_gt pre (Fin 0) then fl_mul (fl_div change pre) (Fin 100)
                           else Fin 0)
            in \<lparr> imp_Region = region, Pre_Covid_Rate = pre, Post_Covid_Rate = post,
                 Absolute_Change = change, Percentage_Change = percent \<rparr>)
         (unique (map Region df))"

text \<open>Rural against urban: the means of one area in a window, and the guarded percentage.\<close>

definition area_mean :: "dataframe \<Rightarrow> string \<Rightarrow> fl" where
  "area_mean wdf area = mean (map Rate (filter (\<lambda>r. Area r = area) wdf))"

definition area_change_pct :: "dataframe \<Rightarrow> string \<Rightarrow> fl" where
  "area_change_pct df area =
     (let area_pre = area_mean (pre_covid_df df) area;
          area_post = area_mean (post_covid_df df) area
      in if fl_gt area_pre (Fin 0)
         then fl_mul (fl_div (fl_sub area_post area_pre) area_pre) (Fin 100)
         else Fin 0)"


definition urban_change_pct :: "dataframe \<Rightarrow> fl" where
  "urban_change_pct df = area_change_pct df ''Urban''"

subsection \<open>Rows for the examples\<close>

text \<open>A row as \<^verbatim>\<open>load_data\<close> leaves it: the year and the month are those of the date.\<close>

definition obs :: "date \<Rightarrow> string \<Rightarrow> string \<Rightarrow> real \<Rightarrow> real \<Rightarrow> real \<Rightarrow> observation" where
  "obs d reg a u e l =
     \<lparr> Date = d, Region = reg, Area = a, Rate = u, Employed = e, Labour = l,
       Year = year d, Month = month d \<rparr>"

subsection \<open>What a scan for the greatest value has established\<close>


subsection \<open>The loader\<close>

text \<open>
  A character is a code point below 256. \<^verbatim>\<open>str.strip()\<close> removes the white space at both
  ends of a string; below 256 the white space characters of Python are the codes 9 to 13,
  28 to 32, 133 and 160.
\<close>

definition isspace :: "char \<Rightarrow> bool" where
  "isspace c =
     (let n = (of_char c :: nat)
      in (9 \<le> n \<and> n \<le> 13) \<or> (28 \<le> n \<and> n \<le> 32) \<or> n = 133 \<or> n = 160)"

definition strip :: "string \<Rightarrow> string" where
  "strip s = rev (dropWhile isspace (rev (dropWhile isspace s)))"

text \<open>
  The frame as \<^verbatim>\<open>pd.read_csv\<close> returns it: the header names as they stand in the file,
  and the rows, with the date still a text. \<open>raw_Date\<close> is the cell of the column whose
  trimmed name is \<^verbatim>\<open>Date\<close>.
\<close>

record raw_row =
  raw_Date :: string
  raw_Region :: string
  raw_Area :: string
  raw_Rate :: real
  raw_Employed :: real
  raw_Labour :: real

record raw_frame =
  raw_columns :: "string list"
  raw_rows :: "raw_row list"

text \<open>
  What a call can do: return, raise, or leave this development, for the inputs whose handling
  by pandas is not described here.
\<close>

datatype 'a outcome = Returns 'a | Raises error | Unmodelled

text \<open>
  The date texts described here have the form of the data file: two digits, a separator, two
  digits, the same separator, four digits, the separator being \<open>-\<close> or \<open>/\<close>, and the
  last field a year from 1678 to 2261 (the years that every timestamp of pandas can hold).
  \<open>shape\<close> gives the three numbers and the separator of such a text.
\<close>

definition digit_val :: "char \<Rightarrow> nat option" where
  "digit_val c = (let n = (of_char c :: nat) in if 48 \<le> n \<and> n \<le> 57 then Some (n - 48) else None)"

fun digits :: "string \<Rightarrow> nat option" where
  "digits [] = None"
| "digits [c] = digit_val c"
| "digits cs =
     (case (digits (butlast cs), digit_val (last cs)) of
        (Some n, Some d) \<Rightarrow> Some (10 * n + d)
      | _ \<Rightarrow> None)"

definition is_sep :: "char \<Rightarrow> bool" where
  "is_sep c = (c = CHR ''-'' \<or> c = CHR ''/'')"

definition shape :: "string \<Rightarrow> (nat \<times> char \<times> nat \<times> nat) option" where
  "shape s =
     (if length s = 10 \<and> s ! 2 = s ! 5 \<and> is_sep (s ! 2) then
        (case (digits (take 2 s), digits (take 2 (drop 3 s)), digits (drop 6 s)) of
           (Some a, Some b, Some y) \<Rightarrow>
             if 1678 \<le> y \<and> y \<le> 2261 then Some (a, s ! 2, b, y) else None
         | _ \<Rightarrow> None)
      else None)"

text \<open>The dates of the calendar.\<close>

definition days_in_month :: "nat \<Rightarrow> nat \<Rightarrow> nat" where
  "days_in_month y m =
     (if m = 2 then (if y mod 4 = 0 \<and> (y mod 100 \<noteq> 0 \<or> y mod 400 = 0) then 29 else 28)
      else if m = 4 \<or> m = 6 \<or> m = 9 \<or> m = 11 then 30 else 31)"

definition valid_date :: "date \<Rightarrow> bool" where
  "valid_date d =
     (case d of (y, m, dd) \<Rightarrow> 1 \<le> m \<and> m \<le> 12 \<and> 1 \<le> dd \<and> dd \<le> days_in_month y m)"

text \<open>
  \<^verbatim>\<open>pd.to_datetime(texts, dayfirst=...)\<close> with no format given (pandas 2.0 and later).
  The format is guessed from the first text and then holds for the whole column. The guess
  parses the first text as dateutil does: the first field is the day when it is more than 12,
  or when \<^verbatim>\<open>dayfirst\<close> is set and the second field is at most 12; otherwise the first
  field is the month. The flag is a preference: with \<^verbatim>\<open>dayfirst=True\<close> a text such as
  \<^verbatim>\<open>05-31-2019\<close> gives the month-first format (pandas warns and goes on). A first text
  that is no date in the order so chosen raises. Every text is then parsed with the guessed
  format, separator included, and one that does not match it, or is no date of the calendar,
  raises.
\<close>

datatype field_order = DayFirst | MonthFirst

definition fields_date :: "field_order \<Rightarrow> nat \<Rightarrow> nat \<Rightarrow> nat \<Rightarrow> date" where
  "fields_date ord a b y = (case ord of DayFirst \<Rightarrow> (y, b, a) | MonthFirst \<Rightarrow> (y, a, b))"

definition guess_datetime_format :: "bool \<Rightarrow> string \<Rightarrow> (field_order \<times> char) option" where
  "guess_datetime_format dayfirst s =
     (case shape s of
        None \<Rightarrow> None
      | Some (a, sep, b, y) \<Rightarrow>
          let ord = (if a > 12 \<or> (dayfirst \<and> b \<le> 12) then DayFirst else MonthFirst)
          in if valid_date (fields_date ord a b y) then Some (ord, sep) else None)"

definition strptime :: "field_order \<times> char \<Rightarrow> string \<Rightarrow> date option" where
  "strptime fmt s =
     (case shape s of
        None \<Rightarrow> None
      | Some (a, sep, b, y) \<Rightarrow>
          if sep = snd fmt \<and> valid_date (fields_date (fst fmt) a b y)
          then Some (fields_date (fst fmt) a b y) else None)"

fun parse_all :: "(string \<Rightarrow> date option) \<Rightarrow> string list \<Rightarrow> date list option" where
  "parse_all f [] = Some []"
| "parse_all f (s # ss) =
     (case f s of
        None \<Rightarrow> None
      | Some d \<Rightarrow> (case parse_all f ss of None \<Rightarrow> None | Some ds \<Rightarrow> Some (d # ds)))"

definition to_datetime :: "bool \<Rightarrow> string list \<Rightarrow> date list outcome" where
  "to_datetime dayfirst ss =
     (if \<not> list_all (\<lambda>s. shape s \<noteq> None) ss then Unmodelled
      else case ss of
             [] \<Rightarrow> Returns []
           | s0 # _ \<Rightarrow>
               (case guess_datetime_format dayfirst s0 of
                  None \<Rightarrow> Raises ValueError
                | Some fmt \<Rightarrow>
                    (case parse_all (strptime fmt) ss of
                       None \<Rightarrow> Raises ValueError
                     | Some ds \<Rightarrow> Returns ds)))"

text \<open>A row with its parsed date and the two columns derived from it.\<close>

definition with_date :: "date \<Rightarrow> raw_row \<Rightarrow> observation" where
  "with_date d r =
     \<lparr> Date = d, Region = raw_Region r, Area = raw_Area r, Rate = raw_Rate r,
       Employed = raw_Employed r, Labour = raw_Labour r, Year = year d, Month = month d \<rparr>"

text \<open>
  \<^verbatim>\<open>df[name] = ...\<close> on the header: a new name goes to the end, a name that is there
  stays where it is.
\<close>

definition add_column :: "string list \<Rightarrow> string \<Rightarrow> string list" where
  "add_column cols name = (if name \<in> set cols then cols else cols @ [name])"

text \<open>
  \<^verbatim>\<open>load_data\<close> trims the headers, trims the date texts, parses them with
  \<^verbatim>\<open>dayfirst=True\<close>, and sets the columns \<^verbatim>\<open>Year\<close>, \<^verbatim>\<open>Month\<close> and
  \<^verbatim>\<open>Month_Name\<close>. With no column \<^verbatim>\<open>Date\<close> after the headers are trimmed the
  selection raises \<^verbatim>\<open>KeyError\<close>, and with several of them it is a frame, which has no
  \<^verbatim>\<open>.str\<close>. The month name is not kept in the rows of this development: nothing in
  \<^verbatim>\<open>main\<close> reads it.
\<close>

definition load_data :: "raw_frame \<Rightarrow> (string list \<times> dataframe) outcome" where
  "load_data raw =
     (let cols = map strip (raw_columns raw) in
      if count_list cols ''Date'' = 0 then Raises KeyError
      else if count_list cols ''Date'' > 1 then Raises AttributeError
      else case to_datetime True (map (\<lambda>r. strip (raw_Date r)) (raw_rows raw)) of
             Unmodelled \<Rightarrow> Unmodelled
           | Raises e \<Rightarrow> Raises e
           | Returns ds \<Rightarrow>
               Returns (add_column (add_column (add_column cols ''Year'') ''Month'') ''Month_Name'',
                        map (\<lambda>(d, r). with_date d r) (zip ds (raw_rows raw))))"

subsection \<open>Readings of a date text, and trimming, as the specification words them\<close>

text \<open>
  The day-first reading of a date text takes its first field as the day and its second as the
  month, when that is a date of the calendar; the month-first reading takes the first field
  as the month. A text is ambiguous when it has both readings.
\<close>

definition dayfirst_reading :: "string \<Rightarrow> date option" where
  "dayfirst_reading s =
     (case shape s of
        None \<Rightarrow> None
      | Some (a, sep, b, y) \<Rightarrow> if valid_date (y, b, a) then Some (y, b, a) else None)"

definition monthfirst_reading :: "string \<Rightarrow> date option" where
  "monthfirst_reading s =
     (case shape s of
        None \<Rightarrow> None
      | Some (a, sep, b, y) \<Rightarrow> if valid_date (y, a, b) then Some (y, a, b) else None)"

definition ambiguous :: "string \<Rightarrow> bool" where
  "ambiguous s = (dayfirst_reading s \<noteq> None \<and> monthfirst_reading s \<noteq> None)"

text \<open>
  \<open>t\<close> is \<open>s\<close> trimmed: \<open>s\<close> is \<open>t\<close> between two runs of white space, and \<open>t\<close> neither
  begins nor ends with white space.
\<close>

definition trimmed_of :: "string \<Rightarrow> string \<Rightarrow> bool" where
  "trimmed_of s t =
     (\<exists>a b. s = a @ t @ b \<and> list_all isspace a \<and> list_all isspace b \<and>
            (t = [] \<or> (\<not> isspace (hd t) \<and> \<not> isspace (last t))))"

text \<open>A row of the file for the examples, with the given date text.\<close>

definition raw1 :: "string \<Rightarrow> raw_row" where
  "raw1 d = \<lparr> raw_Date = d, raw_Region = ''A'', raw_Area = ''Rural'',
              raw_Rate = 1, raw_Employed = 2, raw_Labour = 3 \<rparr>"

section \<open>Properties\<close>

subsection \<open>Basic facts\<close>

lemma set_unique: "set (unique xs) = set xs"
  by (simp add: unique_def)

lemma distinct_unique: "distinct (unique xs)"
  by (simp add: unique_def)

lemma set_all_regions: "set (all_regions df) = Region ` set df"
  by (simp add: all_regions_def set_unique)

lemma between_dates_empty: "e < s \<Longrightarrow> between_dates fdf (s, e) = []"
  by (auto simp: between_dates_def filter_empty_conv)

lemma groupby_mean_Nil: "groupby_mean key [] = []"
  by (simp add: groupby_mean_def)

lemma fold_min_le: "x \<in> set (d # ds) \<Longrightarrow> fold min ds d \<le> (x :: date)"
proof -
  assume "x \<in> set (d # ds)"
  then have "Min (set (d # ds)) \<le> x" by (intro Min_le) auto
  then show ?thesis by (simp only: Min.set_eq_fold)
qed

lemma fold_max_ge: "x \<in> set (d # ds) \<Longrightarrow> (x :: date) \<le> fold max ds d"
proof -
  assume "x \<in> set (d # ds)"
  then have "x \<le> Max (set (d # ds))" by (intro Max_ge) auto
  then show ?thesis by (simp only: Max.set_eq_fold)
qed

subsection \<open>The filter stage\<close>

text \<open>
  C3. The date filter keeps exactly the rows whose date lies between the two bounds, both
  included, in their order. When the end of the range is before its start no row is kept:
  the filtered view is empty, and the two groupings of the regional analysis have no row.
  The filter stage has no failing branch.
\<close>

theorem date_filter_inclusive:
  "between_dates fdf (s, e) = filter (\<lambda>r. s \<le> Date r \<and> Date r \<le> e) fdf \<and>
   (e < s \<longrightarrow> between_dates fdf (s, e) = [] \<and>
      (selected_regions \<noteq> [] \<longrightarrow>
         filtered_df df selected_regions (s, e) selected_area = Some [] \<and>
         region_data_grouped (the (filtered_df df selected_regions (s, e) selected_area)) = [] \<and>
         region_time_data (the (filtered_df df selected_regions (s, e) selected_area)) = []))"
proof -
  have a: "between_dates fdf (s, e) = filter (\<lambda>r. s \<le> Date r \<and> Date r \<le> e) fdf"
    by (simp add: between_dates_def)
  have b: "e < s \<Longrightarrow> between_dates (isin_regions df selected_regions) (s, e) = []"
    by (rule between_dates_empty)
  have c: "e < s \<Longrightarrow> selected_regions \<noteq> [] \<Longrightarrow>
      filtered_df df selected_regions (s, e) selected_area = Some []"
    using b by (simp add: filtered_df_def area_filter_def)
  show ?thesis
    using a c between_dates_empty [of e s fdf]
    by (auto simp: region_data_grouped_def region_time_data_def groupby_mean_Nil)
qed

theorem date_filter_inclusive_witness:
  "((2019, 1, 1) :: date) < (2020, 1, 1) \<and> [''A''] \<noteq> ([] :: string list) \<and>
   between_dates [obs (2019, 5, 31) ''A'' ''Rural'' 10 100 40] ((2020, 1, 1), (2019, 1, 1)) = [] \<and>
   filtered_df [obs (2019, 5, 31) ''A'' ''Rural'' 10 100 40] [''A'']
     ((2020, 1, 1), (2019, 1, 1)) ''Both'' = Some []"
  using date_filter_inclusive [of "[obs (2019, 5, 31) ''A'' ''Rural'' 10 100 40]"
      "(2020, 1, 1)" "(2019, 1, 1)" "[''A'']" "[obs (2019, 5, 31) ''A'' ''Rural'' 10 100 40]" "''Both''"]
  by (simp add: obs_def)

text \<open>
  C4. On a table with at least one row, the selection of every region, of the whole range
  from the least to the greatest date, and of the area \<open>Both\<close> gives the table back, row for
  row; the area \<open>Both\<close> filters nothing.
\<close>

theorem filter_identity:
  assumes "df \<noteq> []"
  shows "\<exists>lo hi. date_min (map Date df) = Some lo \<and> date_max (map Date df) = Some hi \<and>
           filtered_df df (all_regions df) (lo, hi) ''Both'' = Some df \<and>
           area_filter df ''Both'' = df"
proof -
  from assms obtain r rs where df: "df = r # rs" by (cases df) auto
  let ?lo = "fold min (map Date rs) (Date r)" and ?hi = "fold max (map Date rs) (Date r)"
  have lo: "date_min (map Date df) = Some ?lo" and hi: "date_max (map Date df) = Some ?hi"
    by (simp_all add: df)
  have ne: "all_regions df \<noteq> []"
    using set_all_regions [of df] df by auto
  have reg: "isin_regions df (all_regions df) = df"
    by (simp add: isin_regions_def set_all_regions)
  have "\<forall>x \<in> set df. ?lo \<le> Date x \<and> Date x \<le> ?hi"
  proof
    fix x assume "x \<in> set df"
    then have "Date x \<in> set (Date r # map Date rs)" by (auto simp: df)
    then show "?lo \<le> Date x \<and> Date x \<le> ?hi"
      using fold_min_le fold_max_ge by blast
  qed
  then have dt: "between_dates df (?lo, ?hi) = df"
    by (simp add: between_dates_def)
  have "filtered_df df (all_regions df) (?lo, ?hi) ''Both'' = Some df"
    by (simp add: filtered_df_def ne reg dt area_filter_def)
  with lo hi show ?thesis by (simp add: area_filter_def)
qed

theorem filter_identity_witness:
  "[obs (2020, 4, 30) ''B'' ''Urban'' 10 100 40, obs (2019, 5, 31) ''A'' ''Rural'' 15 90 38] \<noteq> [] \<and>
   filtered_df [obs (2020, 4, 30) ''B'' ''Urban'' 10 100 40, obs (2019, 5, 31) ''A'' ''Rural'' 15 90 38]
     (all_regions [obs (2020, 4, 30) ''B'' ''Urban'' 10 100 40, obs (2019, 5, 31) ''A'' ''Rural'' 15 90 38])
     ((2019, 5, 31), (2020, 4, 30)) ''Both''
   = Some [obs (2020, 4, 30) ''B'' ''Urban'' 10 100 40, obs (2019, 5, 31) ''A'' ''Rural'' 15 90 38]"
  using filter_identity [of "[obs (2020, 4, 30) ''B'' ''Urban'' 10 100 40, obs (2019, 5, 31) ''A'' ''Rural'' 15 90 38]"]
  by (simp add: obs_def min_def max_def)

subsection \<open>Covid-19 impact by region\<close>

text \<open>
  C1. The impact table has one record for each region of the table, in the order of first
  appearance. In the record of a region, the pre-Covid rate is the mean of the rate over the
  rows of the region dated from 2019-05-01 to 2020-02-29, both included, and the post-Covid
  rate is the mean over its rows dated from 2020-03-01 to 2020-06-30, both included; the
  absolute change is the post-Covid rate minus the pre-Covid rate; the percentage change is
  the absolute change divided by the pre-Covid rate, times 100, when the pre-Covid rate is
  greater than 0, and 0 otherwise (also when the pre-Covid rate is NaN, a region with no row
  in the window).
\<close>

theorem region_impact_full_windows:
  "map imp_Region (region_impact_full df) = unique (map Region df) \<and>
   distinct (map imp_Region (region_impact_full df)) \<and>
   set (map imp_Region (region_impact_full df)) = Region ` set df \<and>
   (\<forall>i \<in> set (region_impact_full df).
      Pre_Covid_Rate i =
        mean (map Rate (filter (\<lambda>r. Region r = imp_Region i \<and>
                                   (2019, 5, 1) \<le> Date r \<and> Date r \<le> (2020, 2, 29)) df)) \<and>
      Post_Covid_Rate i =
        mean (map Rate (filter (\<lambda>r. Region r = imp_Region i \<and>
                                   (2020, 3, 1) \<le> Date r \<and> Date r \<le> (2020, 6, 30)) df)) \<and>
      Absolute_Change i = fl_sub (Post_Covid_Rate i) (Pre_Covid_Rate i) \<and>
      Percentage_Change i =
        (if fl_gt (Pre_Covid_Rate i) (Fin 0)
         then fl_mul (fl_div (Absolute_Change i) (Pre_Covid_Rate i)) (Fin 100)
         else Fin 0))"
proof -
  have names: "map imp_Region (region_impact_full df) = unique (map Region df)"
    by (simp add: region_impact_full_def Let_def comp_def)
  have pre: "region_mean (pre_covid_df df) reg =
      mean (map Rate (filter (\<lambda>r. Region r = reg \<and>
                                 (2019, 5, 1) \<le> Date r \<and> Date r \<le> (2020, 2, 29)) df))" for reg
    by (simp add: region_mean_def pre_covid_df_def pre_covid_start_def pre_covid_end_def
        conj_commute conj_left_commute)
  have post: "region_mean (post_covid_df df) reg =
      mean (map Rate (filter (\<lambda>r. Region r = reg \<and>
                                 (2020, 3, 1) \<le> Date r \<and> Date r \<le> (2020, 6, 30)) df))" for reg
    by (simp add: region_mean_def post_covid_df_def post_covid_start_def post_covid_end_def
        conj_commute conj_left_commute)
  have rows: "\<forall>i \<in> set (region_impact_full df).
      Pre_Covid_Rate i = region_mean (pre_covid_df df) (imp_Region i) \<and>
      Post_Covid_Rate i = region_mean (post_covid_df df) (imp_Region i) \<and>
      Absolute_Change i = fl_sub (Post_Covid_Rate i) (Pre_Covid_Rate i) \<and>
      Percentage_Change i =
        (if fl_gt (Pre_Covid_Rate i) (Fin 0)
         then fl_mul (fl_div (Absolute_Change i) (Pre_Covid_Rate i)) (Fin 100)
         else Fin 0)"
    by (auto simp: region_impact_full_def Let_def)
  show ?thesis
    using rows by (simp add: names distinct_unique set_unique pre post)
qed

theorem region_impact_full_windows_witness:
  "region_impact_full
     [obs (2019, 5, 1) ''A'' ''Rural'' 10 100 40, obs (2020, 2, 29) ''A'' ''Urban'' 20 100 40,
      obs (2020, 3, 1) ''A'' ''Rural'' 30 100 40, obs (2020, 6, 30) ''A'' ''Rural'' 24 100 40,
      obs (2020, 7, 1) ''A'' ''Rural'' 100 1 1, obs (2019, 4, 30) ''A'' ''Rural'' 100 1 1]
   = [\<lparr> imp_Region = ''A'', Pre_Covid_Rate = Fin 15, Post_Covid_Rate = Fin 27,
        Absolute_Change = Fin 12, Percentage_Change = Fin 80 \<rparr>]"
  using region_impact_full_windows
    [of "[obs (2019, 5, 1) ''A'' ''Rural'' 10 100 40, obs (2020, 2, 29) ''A'' ''Urban'' 20 100 40,
      obs (2020, 3, 1) ''A'' ''Rural'' 30 100 40, obs (2020, 6, 30) ''A'' ''Rural'' 24 100 40,
      obs (2020, 7, 1) ''A'' ''Rural'' 100 1 1, obs (2019, 4, 30) ''A'' ''Rural'' 100 1 1]"]
  by (simp add: region_impact_full_def obs_def unique_def mean_def fl_sub_def Let_def
      region_mean_def pre_covid_df_def post_covid_df_def pre_covid_start_def pre_covid_end_def
      post_covid_start_def post_covid_end_def)

subsection \<open>The headline percentage\<close>





subsection \<open>Grouped means\<close>

lemma groupby_keys: "map fst (groupby_mean key df) = sort (remdups (map key df))"
  by (simp add: groupby_mean_def comp_def)

lemma sorted_map_fst_lex:
  fixes xs :: "('a::linorder \<times> 'b::linorder) list"
  shows "sorted xs \<Longrightarrow> sorted (map fst xs)"
  by (induction xs) (auto simp: less_eq_prod_def)

lemma groupby_sorted: "sorted (map fst (groupby_mean key df))"
  by (simp add: groupby_keys)

lemma mean_nonempty: "xs \<noteq> [] \<Longrightarrow> mean xs = Fin (sum_list xs / real (length xs))"
  by (simp add: mean_def)

text \<open>
  C5. For every view and every grouping key, the grouped means have exactly one row for
  each key value that some row of the view has, and no row for any other key value; the
  value of a row is the sum of the rate over the rows of the view with that key value,
  divided by their number, which is not 0, so it is a number and never NaN. The rows are in
  ascending order of the key: the series by date, and by date and area, are in ascending
  order of the date.
\<close>

theorem groupby_mean_rows:
  "sorted (map fst (groupby_mean key df)) \<and>
   distinct (map fst (groupby_mean key df)) \<and>
   set (map fst (groupby_mean key df)) = key ` set df \<and>
   (\<forall>(k, m) \<in> set (groupby_mean key df).
      filter (\<lambda>r. key r = k) df \<noteq> [] \<and>
      m = Fin (sum_list (map Rate (filter (\<lambda>r. key r = k) df))
               / real (length (filter (\<lambda>r. key r = k) df)))) \<and>
   sorted (map fst (monthly_data df)) \<and>
   sorted (map (\<lambda>row. fst (fst row)) (area_data df))"
proof -
  have k: "map fst (groupby_mean key df) = sort (remdups (map key df))"
    by (rule groupby_keys)
  have s: "sorted (map fst (groupby_mean key df))"
    by (rule groupby_sorted)
  have d: "distinct (map fst (groupby_mean key df))"
    by (simp add: k)
  have e: "set (map fst (groupby_mean key df)) = key ` set df"
    by (simp add: k)
  have m: "\<forall>(k, m) \<in> set (groupby_mean key df).
      filter (\<lambda>r. key r = k) df \<noteq> [] \<and>
      m = Fin (sum_list (map Rate (filter (\<lambda>r. key r = k) df))
               / real (length (filter (\<lambda>r. key r = k) df)))"
  proof (clarify)
    fix k m assume "(k, m) \<in> set (groupby_mean key df)"
    then have kin: "k \<in> key ` set df" and mk: "m = mean (map Rate (filter (\<lambda>r. key r = k) df))"
      by (auto simp: groupby_mean_def)
    from kin have ne: "filter (\<lambda>r. key r = k) df \<noteq> []"
      by (auto simp: filter_empty_conv)
    then show "filter (\<lambda>r. key r = k) df \<noteq> [] \<and>
      m = Fin (sum_list (map Rate (filter (\<lambda>r. key r = k) df))
               / real (length (filter (\<lambda>r. key r = k) df)))"
      using mk by (simp add: mean_def)
  qed
  have t: "sorted (map fst (monthly_data df))"
    unfolding monthly_data_def by (rule groupby_sorted)
  have "sorted (map fst (map fst (area_data df)))"
    unfolding area_data_def by (rule sorted_map_fst_lex) (rule groupby_sorted)
  then have a: "sorted (map (\<lambda>row. fst (fst row)) (area_data df))"
    by (simp add: comp_def)
  show ?thesis using s d e m t a by blast
qed

theorem groupby_mean_rows_witness:
  "monthly_data [obs (2020, 4, 30) ''B'' ''Urban'' 10 100 40, obs (2019, 5, 31) ''A'' ''Rural'' 15 90 38,
     obs (2020, 4, 30) ''A'' ''Urban'' 20 100 40]
   = [((2019, 5, 31), Fin 15), ((2020, 4, 30), Fin 15)] \<and>
   map fst (groupby_mean Date [obs (2020, 4, 30) ''B'' ''Urban'' 10 100 40, obs (2019, 5, 31) ''A'' ''Rural'' 15 90 38,
     obs (2020, 4, 30) ''A'' ''Urban'' 20 100 40]) = [(2019, 5, 31), (2020, 4, 30)]"
  using groupby_mean_rows [of Date "[obs (2020, 4, 30) ''B'' ''Urban'' 10 100 40, obs (2019, 5, 31) ''A'' ''Rural'' 15 90 38,
     obs (2020, 4, 30) ''A'' ''Urban'' 20 100 40]"]
  by (simp add: monthly_data_def groupby_mean_def obs_def mean_def)

subsection \<open>The most affected region\<close>


lemma fl_gt_trans: "fl_gt a b \<Longrightarrow> fl_gt b c \<Longrightarrow> fl_gt a c"
  by (cases a; cases b; cases c) auto













subsection \<open>The loader\<close>

lemma strip_trimmed: "trimmed_of s (strip s)"
proof -
  let ?a = "takeWhile isspace s" and ?m = "dropWhile isspace s"
  let ?b = "rev (takeWhile isspace (rev ?m))"
  have m: "?m = strip s @ ?b"
  proof -
    have "rev (takeWhile isspace (rev ?m) @ dropWhile isspace (rev ?m)) = ?m"
      by (simp only: takeWhile_dropWhile_id rev_rev_ident)
    then have "rev (dropWhile isspace (rev ?m)) @ rev (takeWhile isspace (rev ?m)) = ?m"
      by (simp only: rev_append)
    then show ?thesis unfolding strip_def by (rule sym)
  qed
  have "s = ?a @ ?m" by simp
  with m have s: "s = ?a @ strip s @ ?b" by simp
  have a: "list_all isspace ?a"
    by (simp add: list_all_iff) (meson set_takeWhileD)
  have b: "list_all isspace ?b"
    by (simp add: list_all_iff) (meson set_takeWhileD)
  have ends: "\<not> isspace (hd (strip s)) \<and> \<not> isspace (last (strip s))" if ne: "strip s \<noteq> []"
  proof -
    let ?d = "dropWhile isspace (rev ?m)"
    from ne have dne: "?d \<noteq> []" by (simp add: strip_def)
    then have l: "\<not> isspace (hd ?d)" by (rule hd_dropWhile)
    have last_eq: "last (strip s) = hd ?d" unfolding strip_def by (rule last_rev)
    from ne m have mne: "?m \<noteq> []" by (metis append_is_Nil_conv)
    then have h: "\<not> isspace (hd ?m)" by (rule hd_dropWhile)
    have "hd ?m = hd (strip s)" using m ne by (metis hd_append2)
    with h l last_eq show ?thesis by simp
  qed
  show ?thesis
    unfolding trimmed_of_def using s a b ends by blast
qed

lemma parse_all_Some:
  "parse_all f ss = Some ds \<Longrightarrow> length ds = length ss \<and> (\<forall>i < length ss. f (ss ! i) = Some (ds ! i))"
proof (induction ss arbitrary: ds)
  case Nil
  then show ?case by simp
next
  case (Cons s ss)
  then obtain d ds' where d: "f s = Some d" "parse_all f ss = Some ds'" "ds = d # ds'"
    by (auto split: option.splits)
  from Cons.IH [OF d(2)] d show ?case
    by (auto simp: nth_Cons split: nat.splits)
qed

lemma strptime_DayFirst: "strptime (DayFirst, sep) s = Some d \<Longrightarrow> dayfirst_reading s = Some d"
  by (auto simp: strptime_def dayfirst_reading_def fields_date_def split: option.splits if_splits)

lemma strptime_MonthFirst: "strptime (MonthFirst, sep) s = Some d \<Longrightarrow> monthfirst_reading s = Some d"
  by (auto simp: strptime_def monthfirst_reading_def fields_date_def split: option.splits if_splits)

lemma guess_dayfirst:
  "guess_datetime_format True s = Some (ord, sep) \<Longrightarrow>
   ord = (if dayfirst_reading s \<noteq> None then DayFirst else MonthFirst)"
  by (auto simp: guess_datetime_format_def dayfirst_reading_def fields_date_def valid_date_def
      Let_def split: option.splits if_splits)

lemma to_datetime_Returns:
  assumes "to_datetime True ss = Returns ds"
  shows "length ds = length ss \<and>
         (ss \<noteq> [] \<longrightarrow>
            (if dayfirst_reading (hd ss) \<noteq> None
             then \<forall>i < length ss. dayfirst_reading (ss ! i) = Some (ds ! i)
             else \<forall>i < length ss. monthfirst_reading (ss ! i) = Some (ds ! i)))"
proof (cases ss)
  case Nil
  with assms show ?thesis by (simp add: to_datetime_def)
next
  case (Cons s0 rest)
  with assms obtain ord sep where g: "guess_datetime_format True s0 = Some (ord, sep)"
    and p: "parse_all (strptime (ord, sep)) ss = Some ds"
    by (auto simp: to_datetime_def split: if_splits option.splits)
  from parse_all_Some [OF p] have len: "length ds = length ss"
    and each: "\<forall>i < length ss. strptime (ord, sep) (ss ! i) = Some (ds ! i)" by blast+
  from guess_dayfirst [OF g]
  have ord: "ord = (if dayfirst_reading s0 \<noteq> None then DayFirst else MonthFirst)" .
  show ?thesis
  proof (cases "dayfirst_reading s0 \<noteq> None")
    case True
    with ord each have "\<forall>i < length ss. dayfirst_reading (ss ! i) = Some (ds ! i)"
      by (auto intro: strptime_DayFirst)
    with True len Cons show ?thesis by simp
  next
    case False
    with ord each have "\<forall>i < length ss. monthfirst_reading (ss ! i) = Some (ds ! i)"
      by (auto intro: strptime_MonthFirst)
    with False len Cons show ?thesis by simp
  qed
qed

lemmas loader_simps = load_data_def add_column_def to_datetime_def guess_datetime_format_def
  strptime_def fields_date_def shape_def is_sep_def digit_val_def with_date_def strip_def
  isspace_def dayfirst_reading_def monthfirst_reading_def ambiguous_def valid_date_def
  days_in_month_def year_def month_def raw1_def Let_def

text \<open>
  C9, as the specification states it, fails: a column whose first date text is
  \<^verbatim>\<open>05-31-2019\<close> is loaded, and read month-first, as May 31; the ambiguous text
  \<^verbatim>\<open>05-06-2019\<close> after it is read month-first too, as May 6, and its month is 5, where
  its day-first reading is June 5.
\<close>

theorem load_data_monthfirst_counterexample:
  "load_data \<lparr> raw_columns = [''Region'', '' Date'', ''Area''],
               raw_rows = [raw1 '' 05-31-2019'', raw1 '' 05-06-2019''] \<rparr>
   = Returns ([''Region'', ''Date'', ''Area'', ''Year'', ''Month'', ''Month_Name''],
        [\<lparr> Date = (2019, 5, 31), Region = ''A'', Area = ''Rural'', Rate = 1, Employed = 2,
            Labour = 3, Year = 2019, Month = 5 \<rparr>,
         \<lparr> Date = (2019, 5, 6), Region = ''A'', Area = ''Rural'', Rate = 1, Employed = 2,
            Labour = 3, Year = 2019, Month = 5 \<rparr>]) \<and>
   dayfirst_reading (strip '' 05-31-2019'') = None \<and>
   monthfirst_reading (strip '' 05-31-2019'') = Some (2019, 5, 31) \<and>
   ambiguous (strip '' 05-06-2019'') \<and>
   dayfirst_reading (strip '' 05-06-2019'') = Some (2019, 6, 5)"
  by (simp add: loader_simps)

text \<open>
  C9, amended. When \<^verbatim>\<open>load_data\<close> returns a frame, its headers begin with the headers of
  the file, each trimmed of the white space at both ends; the dates are what the parser
  returns, with \<^verbatim>\<open>dayfirst=True\<close>, for the date texts, each trimmed likewise; and in
  every row the year and the month are those of the parsed date. The parser reads the whole
  column in one order of the fields, fixed by the first date text: when that text has a
  day-first reading, every date of the frame is the day-first reading of its text, so every
  ambiguous text has the year and the month of its day-first reading; when it has none,
  every date of the frame is the month-first reading of its text.
\<close>

theorem load_data_one_order:
  assumes "load_data raw = Returns (cols, df)"
  shows "take (length (raw_columns raw)) cols = map strip (raw_columns raw) \<and>
         (\<forall>h \<in> set (raw_columns raw). trimmed_of h (strip h)) \<and>
         (\<forall>r \<in> set (raw_rows raw). trimmed_of (raw_Date r) (strip (raw_Date r))) \<and>
         to_datetime True (map (\<lambda>r. strip (raw_Date r)) (raw_rows raw)) = Returns (map Date df) \<and>
         length df = length (raw_rows raw) \<and>
         (\<forall>i < length df.
            Year (df ! i) = year (Date (df ! i)) \<and> Month (df ! i) = month (Date (df ! i))) \<and>
         (raw_rows raw \<noteq> [] \<longrightarrow>
            (if dayfirst_reading (strip (raw_Date (hd (raw_rows raw)))) \<noteq> None
             then \<forall>i < length df.
                    dayfirst_reading (strip (raw_Date (raw_rows raw ! i))) = Some (Date (df ! i))
             else \<forall>i < length df.
                    monthfirst_reading (strip (raw_Date (raw_rows raw ! i))) = Some (Date (df ! i))))"
proof -
  let ?ss = "map (\<lambda>r. strip (raw_Date r)) (raw_rows raw)"
  from assms obtain ds where ds: "to_datetime True ?ss = Returns ds"
    and cols: "cols = add_column (add_column (add_column (map strip (raw_columns raw)) ''Year'')
                        ''Month'') ''Month_Name''"
    and df: "df = map (\<lambda>(d, r). with_date d r) (zip ds (raw_rows raw))"
    by (auto simp: load_data_def Let_def split: if_splits outcome.splits)
  from to_datetime_Returns [OF ds] have len: "length ds = length ?ss"
    and ord: "?ss \<noteq> [] \<longrightarrow>
            (if dayfirst_reading (hd ?ss) \<noteq> None
             then \<forall>i < length ?ss. dayfirst_reading (?ss ! i) = Some (ds ! i)
             else \<forall>i < length ?ss. monthfirst_reading (?ss ! i) = Some (ds ! i))"
    by blast+
  have hdr: "take (length (raw_columns raw)) cols = map strip (raw_columns raw)"
    by (simp add: cols add_column_def)
  have ldf: "length df = length (raw_rows raw)" using len by (simp add: df)
  have dates: "map Date df = ds"
    using len by (simp add: df with_date_def comp_def case_prod_unfold)
  have row: "df ! i = with_date (ds ! i) (raw_rows raw ! i)" if "i < length df" for i
    using that len by (simp add: df)
  have ym: "\<forall>i < length df.
            Year (df ! i) = year (Date (df ! i)) \<and> Month (df ! i) = month (Date (df ! i))"
    using row by (simp add: with_date_def)
  have di: "\<forall>i < length df. Date (df ! i) = ds ! i"
    using row by (simp add: with_date_def)
  have hd_eq: "raw_rows raw \<noteq> [] \<Longrightarrow> hd ?ss = strip (raw_Date (hd (raw_rows raw)))"
    by (simp add: hd_map)
  have o: "raw_rows raw \<noteq> [] \<longrightarrow>
            (if dayfirst_reading (strip (raw_Date (hd (raw_rows raw)))) \<noteq> None
             then \<forall>i < length df.
                    dayfirst_reading (strip (raw_Date (raw_rows raw ! i))) = Some (Date (df ! i))
             else \<forall>i < length df.
                    monthfirst_reading (strip (raw_Date (raw_rows raw ! i))) = Some (Date (df ! i)))"
    using ord hd_eq di ldf by (auto split: if_splits)
  show ?thesis
    using hdr ds dates ldf ym o strip_trimmed by simp
qed

theorem load_data_one_order_witness:
  "load_data \<lparr> raw_columns = [''Region'', '' Date'', ''Area''],
               raw_rows = [raw1 '' 31-05-2019'', raw1 '' 05-06-2019''] \<rparr>
   = Returns ([''Region'', ''Date'', ''Area'', ''Year'', ''Month'', ''Month_Name''],
        [\<lparr> Date = (2019, 5, 31), Region = ''A'', Area = ''Rural'', Rate = 1, Employed = 2,
            Labour = 3, Year = 2019, Month = 5 \<rparr>,
         \<lparr> Date = (2019, 6, 5), Region = ''A'', Area = ''Rural'', Rate = 1, Employed = 2,
            Labour = 3, Year = 2019, Month = 6 \<rparr>]) \<and>
   dayfirst_reading (strip '' 05-06-2019'') = Some (2019, 6, 5)"
  using load_data_one_order
    [of "\<lparr> raw_columns = [''Region'', '' Date'', ''Area''],
               raw_rows = [raw1 '' 31-05-2019'', raw1 '' 05-06-2019''] \<rparr>"
        "[''Region'', ''Date'', ''Area'', ''Year'', ''Month'', ''Month_Name'']"
        "[\<lparr> Date = (2019, 5, 31), Region = ''A'', Area = ''Rural'', Rate = 1, Employed = 2,
            Labour = 3, Year = 2019, Month = 5 \<rparr>,
         \<lparr> Date = (2019, 6, 5), Region = ''A'', Area = ''Rural'', Rate = 1, Employed = 2,
            Labour = 3, Year = 2019, Month = 6 \<rparr>]"]
  by (simp add: loader_simps)

end
